theory Spec2Isabelle
  imports Main
begin

section \<open>Python strings\<close>

text \<open>
  A Python \<open>str\<close> is modelled as a \<open>string\<close>, a list of 8-bit characters, each read as
  the code point of the same number (U+0000 to U+00FF). On these code points the
  definitions below are the ones of CPython: \<open>str.lower\<close>, \<open>str.isspace\<close> (also the
  class \<open>\s\<close> of \<open>re\<close> on a \<open>str\<close> pattern), the decimal digits (the class \<open>\d\<close>) and
  \<open>int\<close> on a run of digits. Strings with code points beyond U+00FF are outside the
  model.
\<close>

definition ord :: "char \<Rightarrow> nat" where
  "ord c = of_char c"

definition chr :: "nat \<Rightarrow> char" where
  "chr n = char_of n"

text \<open>The regular-expression class \<open>\d\<close>: the decimal digits, here \<open>0\<close> to \<open>9\<close>.\<close>

definition is_digit :: "char \<Rightarrow> bool" where
  "is_digit c = (48 \<le> ord c \<and> ord c \<le> 57)"

text \<open>
  \<open>str.isspace\<close> and the class \<open>\s\<close>: tab, line feed, vertical tab, form feed, carriage
  return, the four separators U+001C to U+001F, the space, U+0085 and U+00A0.
\<close>

definition is_space :: "char \<Rightarrow> bool" where
  "is_space c = ((9 \<le> ord c \<and> ord c \<le> 13) \<or> (28 \<le> ord c \<and> ord c \<le> 32)
                  \<or> ord c = 133 \<or> ord c = 160)"

text \<open>The class \<open>[a-z]\<close>.\<close>

definition is_lower_az :: "char \<Rightarrow> bool" where
  "is_lower_az c = (97 \<le> ord c \<and> ord c \<le> 122)"

text \<open>The class \<open>[a-zA-Z0-9]\<close>.\<close>

definition is_alnum_az :: "char \<Rightarrow> bool" where
  "is_alnum_az c = ((97 \<le> ord c \<and> ord c \<le> 122) \<or> (65 \<le> ord c \<and> ord c \<le> 90)
                     \<or> (48 \<le> ord c \<and> ord c \<le> 57))"

text \<open>
  \<open>str.lower\<close>, character by character: \<open>A\<close> to \<open>Z\<close> and the upper-case letters
  U+00C0 to U+00DE (the sign U+00D7 apart) move up by 32, every other character stays.
\<close>

definition char_lower :: "char \<Rightarrow> char" where
  "char_lower c =
     (if (65 \<le> ord c \<and> ord c \<le> 90) \<or> (192 \<le> ord c \<and> ord c \<le> 222 \<and> ord c \<noteq> 215)
      then chr (ord c + 32) else c)"

definition lower :: "string \<Rightarrow> string" where
  "lower s = map char_lower s"

text \<open>
  The exceptions of the program: the \<open>ValueError\<close> of \<open>int\<close>, the \<open>IntegrityError\<close> of
  the database and the \<open>HTTPException\<close> of a handler, with its status code.
\<close>

datatype error = ValueError | IntegrityError | HTTPException nat

text \<open>
  \<open>int(s)\<close> for a run of decimal digits \<open>s\<close>, the only strings the program converts
  (they are matches of \<open>\d+\<close>). Python's integers are unbounded, but \<open>int\<close> raises
  \<open>ValueError\<close> for a text of more than 4300 digits (the default of
  \<open>sys.get_int_max_str_digits()\<close>; leading zeros count). \<open>decimal_value\<close> is the number
  that the digits denote.
\<close>

definition decimal_value :: "string \<Rightarrow> int" where
  "decimal_value s = foldl (\<lambda>a c. 10 * a + (int (ord c) - 48)) 0 s"

definition py_int :: "string \<Rightarrow> error + int" where
  "py_int s = (if length s > 4300 then Inl ValueError else Inr (decimal_value s))"

text \<open>\<open>s.startswith(p)\<close> and the substring test \<open>x in s\<close>.\<close>

fun startswith :: "string \<Rightarrow> string \<Rightarrow> bool" where
  "startswith s [] = True"
| "startswith [] (p # ps) = False"
| "startswith (c # s) (p # ps) = (c = p \<and> startswith s ps)"

fun str_in :: "string \<Rightarrow> string \<Rightarrow> bool" where
  "str_in x [] = (x = [])"
| "str_in x (c # s) = (startswith (c # s) x \<or> str_in x s)"

section \<open>Regular expressions\<close>

text \<open>
  The three patterns of the program are a regular expression followed by one capturing
  group, \<open>R(G)\<close>, and the program reads group 1 of the result of \<open>re.search\<close>. The
  matcher is the backtracking matcher of \<open>re\<close>: \<open>re_match r s\<close> lists, in the order in
  which \<open>re\<close> tries them, what is left of \<open>s\<close> after each way of matching \<open>r\<close> at the
  start of \<open>s\<close>. Alternatives are tried from the left, \<open>?\<close> and \<open>+\<close> are greedy.
  \<open>Lit\<close> is a literal text, \<open>Class\<close> one character of a class, \<open>Plus\<close> the repetition
  \<open>+\<close> of a class (the only use of \<open>+\<close> in the patterns), \<open>Seq\<close> a concatenation, \<open>Alt\<close>
  an alternative and \<open>Opt\<close> a group followed by \<open>?\<close>.
\<close>

datatype regex =
    Lit string
  | Class "char \<Rightarrow> bool"
  | Plus "char \<Rightarrow> bool"
  | Seq regex regex
  | Alt regex regex
  | Opt regex

fun re_match :: "regex \<Rightarrow> string \<Rightarrow> string list" where
  "re_match (Lit l) s = (if startswith s l then [drop (length l) s] else [])"
| "re_match (Class P) s = (case s of [] \<Rightarrow> [] | c # cs \<Rightarrow> if P c then [cs] else [])"
| "re_match (Plus P) s =
     map (\<lambda>k. drop k s) (rev [1 ..< Suc (length (takeWhile P s))])"
| "re_match (Seq a b) s = concat (map (re_match b) (re_match a s))"
| "re_match (Alt a b) s = re_match a s @ re_match b s"
| "re_match (Opt a) s = re_match a s @ [s]"

text \<open>
  The text of group 1 in the first successful way of matching \<open>R(G)\<close> at the start of
  \<open>s\<close>, if there is one.
\<close>

definition re_match_group :: "regex \<times> regex \<Rightarrow> string \<Rightarrow> string option" where
  "re_match_group pat s =
     (case concat (map (\<lambda>rest. map (\<lambda>rest'. take (length rest - length rest') rest)
                                      (re_match (snd pat) rest))
                       (re_match (fst pat) s)) of
        [] \<Rightarrow> None
      | g # _ \<Rightarrow> Some g)"

text \<open>
  \<open>re.search(pattern, s)\<close>: the match at the leftmost position of \<open>s\<close> where the pattern
  matches, \<open>None\<close> when it matches nowhere. The result is \<open>match.group(1)\<close>.
\<close>

fun re_search :: "regex \<times> regex \<Rightarrow> string \<Rightarrow> string option" where
  "re_search pat [] = re_match_group pat []"
| "re_search pat (c # s) =
     (case re_match_group pat (c # s) of
        Some g \<Rightarrow> Some g
      | None \<Rightarrow> re_search pat s)"

section \<open>The query interpreter\<close>

text \<open>
  The filters are a Python \<open>dict\<close> from \<open>str\<close> to a boolean, an integer or a string. A
  \<open>dict\<close> keeps its keys in insertion order, and assigning to a key that is present
  replaces the value in place. The interpreter returns the filters, or raises the
  \<open>ValueError\<close> of \<open>int\<close>; the statements after the raising one do not run.
\<close>

datatype pyval = PyBool bool | PyInt int | PyStr string

type_synonym dict = "(string \<times> pyval) list"

fun dict_set :: "'k \<Rightarrow> 'v \<Rightarrow> ('k \<times> 'v) list \<Rightarrow> ('k \<times> 'v) list" where
  "dict_set k v [] = [(k, v)]"
| "dict_set k v (p # ps) = (if fst p = k then (k, v) # ps else p # dict_set k v ps)"

definition dict_get :: "dict \<Rightarrow> string \<Rightarrow> pyval option" where
  "dict_get d k = map_of d k"

text \<open>\<open>r'longer than (\d+)'\<close>\<close>

definition length_pattern :: "regex \<times> regex" where
  "length_pattern = (Lit ''longer than '', Plus is_digit)"

text \<open>\<open>r'shorter than (\d+)'\<close>\<close>

definition shorter_pattern :: "regex \<times> regex" where
  "shorter_pattern = (Lit ''shorter than '', Plus is_digit)"

text \<open>\<open>r'contain(?:s|ing)?\s+(?:the\s+)?(?:letter\s+)?([a-z])'\<close>\<close>

definition contains_pattern :: "regex \<times> regex" where
  "contains_pattern =
     (Seq (Lit ''contain'')
       (Seq (Opt (Alt (Lit ''s'') (Lit ''ing'')))
         (Seq (Plus is_space)
           (Seq (Opt (Seq (Lit ''the'') (Plus is_space)))
                (Opt (Seq (Lit ''letter'') (Plus is_space)))))),
      Class is_lower_az)"

definition parse_natural_language_query :: "string \<Rightarrow> error + dict" where
  "parse_natural_language_query query =
     (let query_lower = lower query;
          filters = [];
          filters =
            (if str_in ''palindrome'' query_lower \<or> str_in ''palindromic'' query_lower
             then dict_set ''is_palindrome'' (PyBool True) filters
             else filters);
          filters =
            (if str_in ''single word'' query_lower
             then dict_set ''word_count'' (PyInt 1) filters
             else if str_in ''two word'' query_lower \<or> str_in ''2 word'' query_lower
             then dict_set ''word_count'' (PyInt 2) filters
             else filters)
      in
        case (case re_search length_pattern query_lower of
                Some g \<Rightarrow>
                  (case py_int g of
                     Inl e \<Rightarrow> Inl e
                   | Inr n \<Rightarrow> Inr (dict_set ''min_length'' (PyInt (n + 1)) filters))
              | None \<Rightarrow> Inr filters) of
          Inl e \<Rightarrow> Inl e
        | Inr filters \<Rightarrow>
            (case (case re_search shorter_pattern query_lower of
                     Some g \<Rightarrow>
                       (case py_int g of
                          Inl e \<Rightarrow> Inl e
                        | Inr n \<Rightarrow> Inr (dict_set ''max_length'' (PyInt (n - 1)) filters))
                   | None \<Rightarrow> Inr filters) of
               Inl e \<Rightarrow> Inl e
             | Inr filters \<Rightarrow>
                 (let filters =
                        (case re_search contains_pattern query_lower of
                           Some g \<Rightarrow> dict_set ''contains_character'' (PyStr g) filters
                         | None \<Rightarrow> filters);
                      filters =
                        (if str_in ''first vowel'' query_lower
                         then dict_set ''contains_character'' (PyStr ''a'') filters
                         else filters)
                  in Inr filters)))"

section \<open>String analysis\<close>

text \<open>
  \<open>re.sub(pattern, repl, s)\<close> for a pattern that is one character class: every character
  of the class is replaced by \<open>repl\<close>.
\<close>

definition re_sub :: "(char \<Rightarrow> bool) \<Rightarrow> string \<Rightarrow> string \<Rightarrow> string" where
  "re_sub P repl s = concat (map (\<lambda>c. if P c then repl else [c]) s)"

definition is_palindrome :: "string \<Rightarrow> bool" where
  "is_palindrome text =
     (let cleaned = re_sub (\<lambda>c. \<not> is_alnum_az c) [] (lower text)
      in cleaned = rev cleaned)"

definition count_unique_characters :: "string \<Rightarrow> int" where
  "count_unique_characters text = int (card (set text))"

text \<open>
  \<open>text.split()\<close>: the maximal runs of characters that are not white space; \<open>cur\<close> is
  the run being read.
\<close>

fun split_from :: "string \<Rightarrow> string \<Rightarrow> string list" where
  "split_from cur [] = (if cur = [] then [] else [cur])"
| "split_from cur (c # s) =
     (if is_space c then (if cur = [] then split_from [] s else cur # split_from [] s)
      else split_from (cur @ [c]) s)"

definition split :: "string \<Rightarrow> string list" where
  "split text = split_from [] text"

definition count_words :: "string \<Rightarrow> int" where
  "count_words text = int (length (split text))"

text \<open>\<open>dict(Counter(text))\<close>: the characters in the order of their first occurrence.\<close>

definition character_frequency :: "string \<Rightarrow> (char \<times> int) list" where
  "character_frequency text =
     foldl (\<lambda>m c. dict_set c (case map_of m c of None \<Rightarrow> 1 | Some n \<Rightarrow> n + 1) m) [] text"

text \<open>
  The dictionary of \<open>analyze_string\<close>, and the row of the table \<open>strings\<close> made from it;
  the database sets \<open>created_at\<close>. The fields carry the suffix \<open>_col\<close>.
\<close>

record analysis_data =
  id_col :: string
  value_col :: string
  length_col :: int
  is_palindrome_col :: bool
  unique_characters_col :: int
  word_count_col :: int
  sha256_hash_col :: string
  character_frequency_map_col :: "(char \<times> int) list"

record StringAnalysisDB = analysis_data +
  created_at_col :: nat

text \<open>
  \<open>compute_sha256\<close> is \<open>hashlib\<close>'s SHA-256; the functions that use it take it as their
  first argument.
\<close>

definition analyze_string :: "(string \<Rightarrow> string) \<Rightarrow> string \<Rightarrow> analysis_data" where
  "analyze_string compute_sha256 v =
     (let sha256_hash = compute_sha256 v
      in \<lparr> id_col = sha256_hash,
           value_col = v,
           length_col = int (length v),
           is_palindrome_col = is_palindrome v,
           unique_characters_col = count_unique_characters v,
           word_count_col = count_words v,
           sha256_hash_col = sha256_hash,
           character_frequency_map_col = character_frequency v \<rparr>)"

section \<open>Database operations\<close>

text \<open>
  The session is the table \<open>strings\<close>: its rows in storage order. The column \<open>id\<close> is the
  primary key and the column \<open>value\<close> is unique, so an insert that repeats either fails
  with \<open>IntegrityError\<close>. A query without \<open>ORDER BY\<close> reads the rows in storage order.
\<close>

type_synonym session = "StringAnalysisDB list"

definition create_string_analysis ::
  "nat \<Rightarrow> session \<Rightarrow> analysis_data \<Rightarrow> error + (StringAnalysisDB \<times> session)" where
  "create_string_analysis now db a =
     (if list_ex (\<lambda>r. id_col r = id_col a \<or> value_col r = value_col a) db
      then Inl IntegrityError
      else (let db_string = analysis_data.extend a \<lparr> created_at_col = now \<rparr>
            in Inr (db_string, db @ [db_string])))"

definition get_string_by_value :: "session \<Rightarrow> string \<Rightarrow> StringAnalysisDB option" where
  "get_string_by_value db v = find (\<lambda>r. value_col r = v) db"

definition get_string_by_id :: "session \<Rightarrow> string \<Rightarrow> StringAnalysisDB option" where
  "get_string_by_id db string_id = find (\<lambda>r. id_col r = string_id) db"

definition delete_string_by_value :: "session \<Rightarrow> string \<Rightarrow> bool \<times> session" where
  "delete_string_by_value db v =
     (case get_string_by_value db v of
        Some db_string \<Rightarrow> (True, filter (\<lambda>r. id_col r \<noteq> id_col db_string) db)
      | None \<Rightarrow> (False, db))"

text \<open>
  \<open>column.contains(other)\<close> is the SQL condition \<open>column LIKE '%' || other || '%'\<close>, and
  \<open>other\<close> is not escaped. In the pattern of \<open>LIKE\<close>, \<open>%\<close> stands for any run of
  characters, \<open>_\<close> for any one character, and the backslash (the escape character of
  PostgreSQL, the database of the default \<open>DATABASE_URL\<close>) makes the next character
  stand for itself; every other character stands for itself. The comparison is
  case-sensitive. A pattern that ends in the escape character is refused by the
  database; the patterns of \<open>contains\<close> end in \<open>%\<close>.
\<close>

fun sql_like :: "string \<Rightarrow> string \<Rightarrow> bool" where
  "sql_like [] s = (s = [])"
| "sql_like (p # ps) s =
     (if p = CHR ''%'' then
        (sql_like ps s \<or> (case s of [] \<Rightarrow> False | c # cs \<Rightarrow> sql_like (p # ps) cs))
      else if p = CHR ''_'' then
        (case s of [] \<Rightarrow> False | c # cs \<Rightarrow> sql_like ps cs)
      else if p = CHR 0x5C then
        (case ps of
           [] \<Rightarrow> False
         | q # qs \<Rightarrow> (case s of [] \<Rightarrow> False | c # cs \<Rightarrow> c = q \<and> sql_like qs cs))
      else
        (case s of [] \<Rightarrow> False | c # cs \<Rightarrow> c = p \<and> sql_like ps cs))"

definition contains :: "string \<Rightarrow> string \<Rightarrow> bool" where
  "contains column other = sql_like (''%'' @ other @ ''%'') column"

definition get_all_strings_with_filters ::
  "session \<Rightarrow> bool option \<Rightarrow> int option \<Rightarrow> int option \<Rightarrow> int option \<Rightarrow> string option
     \<Rightarrow> StringAnalysisDB list" where
  "get_all_strings_with_filters db is_pal min_length max_length word_count contains_character =
     (let query = db;
          query = (case is_pal of
                     Some b \<Rightarrow> filter (\<lambda>r. is_palindrome_col r = b) query
                   | None \<Rightarrow> query);
          query = (case min_length of
                     Some n \<Rightarrow> filter (\<lambda>r. length_col r \<ge> n) query
                   | None \<Rightarrow> query);
          query = (case max_length of
                     Some n \<Rightarrow> filter (\<lambda>r. length_col r \<le> n) query
                   | None \<Rightarrow> query);
          query = (case word_count of
                     Some n \<Rightarrow> filter (\<lambda>r. word_count_col r = n) query
                   | None \<Rightarrow> query);
          query = (case contains_character of
                     Some c \<Rightarrow> filter (\<lambda>r. contains (value_col r) c) query
                   | None \<Rightarrow> query)
      in query)"

section \<open>Request handlers\<close>

text \<open>
  A handler returns its response or the error it raises, and the session it leaves. A
  \<open>StringAnalysisResponse\<close> shows the fields of one row and is modelled by the row.
\<close>

definition create_string ::
  "(string \<Rightarrow> string) \<Rightarrow> nat \<Rightarrow> session \<Rightarrow> string \<Rightarrow> (error + StringAnalysisDB) \<times> session" where
  "create_string compute_sha256 now db v =
     (case get_string_by_value db v of
        Some existing \<Rightarrow> (Inl (HTTPException 409), db)
      | None \<Rightarrow>
          (case create_string_analysis now db (analyze_string compute_sha256 v) of
             Inl e \<Rightarrow> (Inl e, db)
           | Inr (db_string, db') \<Rightarrow> (Inr db_string, db')))"

text \<open>
  \<open>POST /strings\<close>: the request model \<open>StringAnalysisRequest\<close> refuses an empty value
  (\<open>min_length=1\<close>) with status 422 before the handler runs.
\<close>

definition StringAnalysisRequest :: "string \<Rightarrow> error + string" where
  "StringAnalysisRequest v = (if length v < 1 then Inl (HTTPException 422) else Inr v)"

definition post_strings ::
  "(string \<Rightarrow> string) \<Rightarrow> nat \<Rightarrow> session \<Rightarrow> string \<Rightarrow> (error + StringAnalysisDB) \<times> session" where
  "post_strings compute_sha256 now db v =
     (case StringAnalysisRequest v of
        Inl e \<Rightarrow> (Inl e, db)
      | Inr request \<Rightarrow> create_string compute_sha256 now db request)"

definition get_string :: "session \<Rightarrow> string \<Rightarrow> error + StringAnalysisDB" where
  "get_string db string_value =
     (case get_string_by_value db string_value of
        None \<Rightarrow> Inl (HTTPException 404)
      | Some db_string \<Rightarrow> Inr db_string)"

definition delete_string :: "session \<Rightarrow> string \<Rightarrow> (error + unit) \<times> session" where
  "delete_string db string_value =
     (case delete_string_by_value db string_value of
        (deleted, db') \<Rightarrow> (if \<not> deleted then Inl (HTTPException 404) else Inr (), db'))"

text \<open>
  \<open>GET /strings\<close>: the declarations \<open>Query(None, ge=0)\<close> and
  \<open>Query(None, min_length=1, max_length=1)\<close> refuse a request with status 422 before the
  body runs. The response is the rows, their number and \<open>filters_applied\<close>.
\<close>

definition get_all_strings ::
  "session \<Rightarrow> bool option \<Rightarrow> int option \<Rightarrow> int option \<Rightarrow> int option \<Rightarrow> string option
     \<Rightarrow> error + (StringAnalysisDB list \<times> int \<times> dict)" where
  "get_all_strings db is_pal min_length max_length word_count contains_character =
     (if (case min_length of Some n \<Rightarrow> n < 0 | None \<Rightarrow> False)
         \<or> (case max_length of Some n \<Rightarrow> n < 0 | None \<Rightarrow> False)
         \<or> (case word_count of Some n \<Rightarrow> n < 0 | None \<Rightarrow> False)
         \<or> (case contains_character of Some c \<Rightarrow> length c \<noteq> 1 | None \<Rightarrow> False)
      then Inl (HTTPException 422)
      else
        (let strings = get_all_strings_with_filters db is_pal min_length max_length
                         word_count contains_character;
             filters_applied = [];
             filters_applied = (case is_pal of
                                  Some b \<Rightarrow> dict_set ''is_palindrome'' (PyBool b) filters_applied
                                | None \<Rightarrow> filters_applied);
             filters_applied = (case min_length of
                                  Some n \<Rightarrow> dict_set ''min_length'' (PyInt n) filters_applied
                                | None \<Rightarrow> filters_applied);
             filters_applied = (case max_length of
                                  Some n \<Rightarrow> dict_set ''max_length'' (PyInt n) filters_applied
                                | None \<Rightarrow> filters_applied);
             filters_applied = (case word_count of
                                  Some n \<Rightarrow> dict_set ''word_count'' (PyInt n) filters_applied
                                | None \<Rightarrow> filters_applied);
             filters_applied = (case contains_character of
                                  Some c \<Rightarrow> dict_set ''contains_character'' (PyStr c) filters_applied
                                | None \<Rightarrow> filters_applied)
         in Inr (strings, int (length strings), filters_applied)))"

text \<open>
  The call \<open>get_all_strings_with_filters(db=db, **parsed_filters)\<close>: every key of the
  dictionary must be the name of a parameter, and a key that is absent leaves the
  parameter at \<open>None\<close>. The parameters are typed as their annotations say; the interpreter
  only produces values of these types. An exception of the call reaches the handler's
  \<open>except Exception\<close>.
\<close>

fun arg_bool :: "pyval option \<Rightarrow> bool option option" where
  "arg_bool None = Some None"
| "arg_bool (Some (PyBool b)) = Some (Some b)"
| "arg_bool (Some _) = None"

fun arg_int :: "pyval option \<Rightarrow> int option option" where
  "arg_int None = Some None"
| "arg_int (Some (PyInt n)) = Some (Some n)"
| "arg_int (Some _) = None"

fun arg_str :: "pyval option \<Rightarrow> string option option" where
  "arg_str None = Some None"
| "arg_str (Some (PyStr s)) = Some (Some s)"
| "arg_str (Some _) = None"

definition call_with_filters :: "session \<Rightarrow> dict \<Rightarrow> StringAnalysisDB list option" where
  "call_with_filters db kwargs =
     (if list_ex (\<lambda>(k, v). k \<notin> set [''is_palindrome'', ''min_length'', ''max_length'',
                                       ''word_count'', ''contains_character'']) kwargs
      then None
      else
        (case (arg_bool (dict_get kwargs ''is_palindrome''),
               arg_int (dict_get kwargs ''min_length''),
               arg_int (dict_get kwargs ''max_length''),
               arg_int (dict_get kwargs ''word_count''),
               arg_str (dict_get kwargs ''contains_character'')) of
           (Some is_pal, Some min_length, Some max_length, Some word_count, Some contains_character) \<Rightarrow>
             Some (get_all_strings_with_filters db is_pal min_length max_length
                     word_count contains_character)
         | _ \<Rightarrow> None))"

text \<open>
  The handler of the natural-language filter. The response is the rows, their number
  and \<open>interpreted_query\<close>: the original query and the parsed filters. An exception
  of the interpreter or of the call reaches \<open>except Exception\<close> and becomes status 422.
\<close>

definition filter_by_natural_language ::
  "session \<Rightarrow> string \<Rightarrow> error + (StringAnalysisDB list \<times> int \<times> string \<times> dict)" where
  "filter_by_natural_language db query =
     (case parse_natural_language_query query of
        Inl e \<Rightarrow> Inl (HTTPException 422)
      | Inr parsed_filters \<Rightarrow>
          if parsed_filters = [] then Inl (HTTPException 400)
          else
            (case call_with_filters db parsed_filters of
               None \<Rightarrow> Inl (HTTPException 422)
             | Some strings \<Rightarrow> Inr (strings, int (length strings), query, parsed_filters)))"

section \<open>The properties as the specification words them\<close>

text \<open>
  The palindrome computation as the specification describes it: normalise by
  lower-casing and by removing every character that is not alphanumeric (a letter
  \<open>a\<close> to \<open>z\<close> or \<open>A\<close> to \<open>Z\<close>, or a digit), then compare with the reverse.
\<close>

definition spec_normalize :: "string \<Rightarrow> string" where
  "spec_normalize text = filter is_alnum_az (lower text)"

definition spec_is_palindrome :: "string \<Rightarrow> bool" where
  "spec_is_palindrome text = (spec_normalize text = rev (spec_normalize text))"

text \<open>
  The filter evaluator as the specification describes it: a record is admitted when it
  satisfies the predicate of every filter that is present, and \<open>contains_character\<close>
  is a literal substring test on the stored value.
\<close>

definition spec_admits ::
  "StringAnalysisDB \<Rightarrow> bool option \<Rightarrow> int option \<Rightarrow> int option \<Rightarrow> int option \<Rightarrow> string option
     \<Rightarrow> bool" where
  "spec_admits r is_pal min_length max_length word_count contains_character =
     ((case is_pal of None \<Rightarrow> True | Some b \<Rightarrow> is_palindrome_col r = b)
      \<and> (case min_length of None \<Rightarrow> True | Some n \<Rightarrow> length_col r \<ge> n)
      \<and> (case max_length of None \<Rightarrow> True | Some n \<Rightarrow> length_col r \<le> n)
      \<and> (case word_count of None \<Rightarrow> True | Some n \<Rightarrow> word_count_col r = n)
      \<and> (case contains_character of None \<Rightarrow> True | Some c \<Rightarrow> str_in c (value_col r)))"

text \<open>The characters with a meaning of their own in a pattern of \<open>LIKE\<close>.\<close>

definition like_special :: "char \<Rightarrow> bool" where
  "like_special c = (c = CHR ''%'' \<or> c = CHR ''_'' \<or> c = CHR 0x5C)"

text \<open>The row that \<open>POST /strings\<close> stores for the value \<open>abc\<close> (at time 0).\<close>

definition row_abc :: StringAnalysisDB where
  "row_abc =
     \<lparr> id_col = ''ba7816bf8f01cfea414140de5dae2223b00361a396177a9cb410ff61f20015ad'',
       value_col = ''abc'', length_col = 3, is_palindrome_col = False,
       unique_characters_col = 3, word_count_col = 1,
       sha256_hash_col = ''ba7816bf8f01cfea414140de5dae2223b00361a396177a9cb410ff61f20015ad'',
       character_frequency_map_col = [(CHR ''a'', 1), (CHR ''b'', 1), (CHR ''c'', 1)],
       created_at_col = 0 \<rparr>"

text \<open>
  The number of filters that are present, and the results of evaluating each present
  filter alone over the same table.
\<close>

definition keys_present ::
  "bool option \<Rightarrow> int option \<Rightarrow> int option \<Rightarrow> int option \<Rightarrow> string option \<Rightarrow> nat" where
  "keys_present is_pal min_length max_length word_count contains_character =
     (if is_pal = None then 0 else 1) + (if min_length = None then 0 else 1)
     + (if max_length = None then 0 else 1) + (if word_count = None then 0 else 1)
     + (if contains_character = None then 0 else 1)"

definition single_filter_results ::
  "session \<Rightarrow> bool option \<Rightarrow> int option \<Rightarrow> int option \<Rightarrow> int option \<Rightarrow> string option
     \<Rightarrow> StringAnalysisDB list list" where
  "single_filter_results db is_pal min_length max_length word_count contains_character =
     (case is_pal of None \<Rightarrow> []
      | Some b \<Rightarrow> [get_all_strings_with_filters db (Some b) None None None None])
     @ (case min_length of None \<Rightarrow> []
        | Some n \<Rightarrow> [get_all_strings_with_filters db None (Some n) None None None])
     @ (case max_length of None \<Rightarrow> []
        | Some n \<Rightarrow> [get_all_strings_with_filters db None None (Some n) None None])
     @ (case word_count of None \<Rightarrow> []
        | Some n \<Rightarrow> [get_all_strings_with_filters db None None None (Some n) None])
     @ (case contains_character of None \<Rightarrow> []
        | Some c \<Rightarrow> [get_all_strings_with_filters db None None None None (Some c)])"

text \<open>
  An integer literal after a phrase: at position \<open>i\<close> of \<open>s\<close> begins the phrase, followed
  by a digit. \<open>decimal n\<close> is the literal of the number \<open>n\<close> without leading zeros.
\<close>

definition literal_at :: "string \<Rightarrow> string \<Rightarrow> nat \<Rightarrow> bool" where
  "literal_at phrase s i =
     (startswith (drop i s) phrase
      \<and> (case drop (length phrase) (drop i s) of [] \<Rightarrow> False | d # _ \<Rightarrow> is_digit d))"

text \<open>
  An integer literal that a length rule reads from the query has more than 4300 digits.
\<close>

definition literal_over_limit :: "string \<Rightarrow> bool" where
  "literal_over_limit query =
     ((case re_search length_pattern (lower query) of
         Some g \<Rightarrow> length g > 4300 | None \<Rightarrow> False)
      \<or> (case re_search shorter_pattern (lower query) of
            Some g \<Rightarrow> length g > 4300 | None \<Rightarrow> False))"

fun decimal :: "nat \<Rightarrow> string" where
  "decimal n = (if n < 10 then [chr (48 + n)] else decimal (n div 10) @ [chr (48 + n mod 10)])"

declare decimal.simps [simp del]

section \<open>Basic facts\<close>

lemma ord_chr: "n < 256 \<Longrightarrow> ord (chr n) = n"
  by (simp add: ord_def chr_def)

lemma char_lower_idem: "char_lower (char_lower c) = char_lower c"
  by (auto simp add: char_lower_def ord_chr)

lemma lower_idem: "lower (lower s) = lower s"
  by (simp add: lower_def char_lower_idem)

lemma length_lower: "length (lower s) = length s"
  by (simp add: lower_def)

lemma dict_get_set:
  "dict_get (dict_set k v d) k' = (if k' = k then Some v else dict_get d k')"
  by (induction d) (auto simp: dict_get_def)

lemma dict_get_nil: "dict_get [] k = None"
  by (simp add: dict_get_def)

lemma keys_dict_set: "fst ` set (dict_set k v d) = insert k (fst ` set d)"
  by (induction d) auto

lemma re_sub_empty: "re_sub P [] s = filter (\<lambda>c. \<not> P c) s"
  by (induction s) (simp_all add: re_sub_def)

lemma startswith_nil: "startswith [] x = (x = [])"
  by (cases x) simp_all

lemma startswith_append: "startswith (l @ v) l"
  by (induction l) simp_all

section \<open>The matcher\<close>

lemma re_match_plus_first:
  "re_match (Plus P) t =
     (if takeWhile P t = [] then []
      else drop (length (takeWhile P t)) t
             # map (\<lambda>k. drop k t) (rev [1 ..< length (takeWhile P t)]))"
  by (cases "takeWhile P t") simp_all

lemma take_takeWhile_length:
  "take (length t - length (drop (length (takeWhile P t)) t)) t = takeWhile P t"
proof -
  have "length (takeWhile P t) \<le> length t" by (rule length_takeWhile_le)
  then have "length t - length (drop (length (takeWhile P t)) t) = length (takeWhile P t)"
    by simp
  then have "take (length t - length (drop (length (takeWhile P t)) t)) t
    = take (length (takeWhile P t)) t" by (rule arg_cong)
  also have "\<dots> = takeWhile P t" by (rule takeWhile_eq_take [symmetric])
  finally show ?thesis .
qed

lemma group_plus_first:
  "(case map (\<lambda>rest'. take (length t - length rest') t) (re_match (Plus P) t) of
      [] \<Rightarrow> None | g # _ \<Rightarrow> Some g)
   = (if takeWhile P t = [] then None else Some (takeWhile P t))"
proof (cases "takeWhile P t = []")
  case True
  then show ?thesis by simp
next
  case False
  then show ?thesis
    by (simp only: re_match_plus_first if_False list.map list.case take_takeWhile_length)
qed

text \<open>
  Group 1 of \<open>phrase(\d+)\<close> matched at the start of \<open>s\<close> is the longest run of digits
  after the phrase.
\<close>

lemma re_match_group_lit_plus:
  "re_match_group (Lit l, Plus P) s =
     (if startswith s l \<and> takeWhile P (drop (length l) s) \<noteq> []
      then Some (takeWhile P (drop (length l) s)) else None)"
proof (cases "startswith s l")
  case False
  then show ?thesis by (simp add: re_match_group_def)
next
  case True
  then have "re_match_group (Lit l, Plus P) s =
    (case map (\<lambda>rest'. take (length (drop (length l) s) - length rest') (drop (length l) s))
            (re_match (Plus P) (drop (length l) s)) of
      [] \<Rightarrow> None | g # _ \<Rightarrow> Some g)"
    by (simp add: re_match_group_def del: re_match.simps(3) length_drop)
  then show ?thesis using True by (simp only: group_plus_first) simp
qed

lemma re_match_group_class:
  assumes "re_match_group (r, Class P) s = Some g"
  shows "\<exists>c. g = [c] \<and> P c"
proof -
  define L where
    "L = concat (map (\<lambda>rest. map (\<lambda>rest'. take (length rest - length rest') rest)
                                 (re_match (Class P) rest)) (re_match r s))"
  have "\<forall>x\<in>set L. \<exists>c. x = [c] \<and> P c"
    unfolding L_def by (auto split: list.splits if_splits)
  moreover have "g \<in> set L"
  proof -
    from assms have "(case L of [] \<Rightarrow> None | x # _ \<Rightarrow> Some x) = Some g"
      unfolding L_def re_match_group_def by simp
    then show ?thesis by (cases L) auto
  qed
  ultimately show ?thesis by blast
qed

lemma re_search_unfold:
  "re_search pat s =
     (case re_match_group pat s of
        Some g \<Rightarrow> Some g
      | None \<Rightarrow> (case s of [] \<Rightarrow> None | c # t \<Rightarrow> re_search pat t))"
  by (cases s) (simp_all split: option.split)

lemma re_search_skip:
  "(\<forall>i<length pre. re_match_group pat (drop i (pre @ s)) = None) \<Longrightarrow>
   re_search pat (pre @ s) = re_search pat s"
proof (induction pre)
  case Nil
  then show ?case by simp
next
  case (Cons c pre)
  have "re_match_group pat ((c # pre) @ s) = None"
    using Cons.prems [rule_format, of 0] by simp
  moreover have "\<forall>i<length pre. re_match_group pat (drop i (pre @ s)) = None"
  proof (intro allI impI)
    fix i assume "i < length pre"
    then show "re_match_group pat (drop i (pre @ s)) = None"
      using Cons.prems [rule_format, of "Suc i"] by simp
  qed
  ultimately show ?case using Cons.IH by simp
qed

lemma re_search_found: "re_match_group pat s = Some g \<Longrightarrow> re_search pat s = Some g"
  by (subst re_search_unfold) simp

text \<open>A result of \<open>re.search\<close> is a match at some position of the text.\<close>

lemma re_search_Some_D:
  "re_search pat s = Some g \<Longrightarrow> \<exists>i. re_match_group pat (drop i s) = Some g"
proof (induction s)
  case Nil
  then show ?case by simp
next
  case (Cons c s)
  show ?case
  proof (cases "re_match_group pat (c # s)")
    case None
    with Cons.prems have "re_search pat s = Some g" by simp
    then obtain i where "re_match_group pat (drop i s) = Some g"
      using Cons.IH by blast
    then have "re_match_group pat (drop (Suc i) (c # s)) = Some g" by simp
    then show ?thesis by blast
  next
    case (Some h)
    with Cons.prems have "re_match_group pat (drop 0 (c # s)) = Some g" by simp
    then show ?thesis by blast
  qed
qed

lemma re_search_class:
  "re_search (r, Class P) s = Some g \<Longrightarrow> \<exists>c. g = [c] \<and> P c"
  using re_search_Some_D re_match_group_class by blast

lemma re_search_run:
  assumes "re_search (Lit l, Plus P) s = Some g"
  shows "list_all P g \<and> length g \<le> length s"
proof -
  from assms obtain i where "re_match_group (Lit l, Plus P) (drop i s) = Some g"
    using re_search_Some_D by blast
  then have g: "g = takeWhile P (drop (length l) (drop i s))"
    by (simp add: re_match_group_lit_plus split: if_splits)
  have "length g \<le> length (drop (length l) (drop i s))"
    unfolding g by (rule length_takeWhile_le)
  then have "length g \<le> length s" by simp
  moreover have "list_all P g"
    unfolding g by (auto simp: list_all_iff dest: set_takeWhileD)
  ultimately show ?thesis by simp
qed

lemma literal_at_iff:
  "literal_at l s i = (re_match_group (Lit l, Plus is_digit) (drop i s) \<noteq> None)"
  by (auto simp: literal_at_def re_match_group_lit_plus split: list.splits)

lemma takeWhile_run:
  "list_all P ds \<Longrightarrow> (case rest of [] \<Rightarrow> True | c # _ \<Rightarrow> \<not> P c) \<Longrightarrow>
   takeWhile P (ds @ rest) = ds"
  by (induction ds) (auto split: list.splits)

text \<open>
  \<open>re.search\<close> for \<open>phrase(\d+)\<close> returns the literal at the leftmost position where
  the phrase is followed by a digit.
\<close>

lemma re_search_literal:
  assumes s: "s = pre @ l @ ds @ rest"
    and ds: "ds \<noteq> []" "list_all is_digit ds"
    and rest: "case rest of [] \<Rightarrow> True | c # _ \<Rightarrow> \<not> is_digit c"
    and first: "\<forall>i<length pre. \<not> literal_at l s i"
  shows "re_search (Lit l, Plus is_digit) s = Some ds"
proof -
  have "\<forall>i<length pre.
          re_match_group (Lit l, Plus is_digit) (drop i (pre @ l @ ds @ rest)) = None"
    using first by (simp add: literal_at_iff s)
  then have "re_search (Lit l, Plus is_digit) s
      = re_search (Lit l, Plus is_digit) (l @ ds @ rest)"
    unfolding s by (rule re_search_skip)
  moreover have "re_match_group (Lit l, Plus is_digit) (l @ ds @ rest) = Some ds"
    using ds rest by (simp add: re_match_group_lit_plus startswith_append takeWhile_run)
  ultimately show ?thesis by (simp add: re_search_found)
qed

section \<open>Integer literals\<close>

lemma decimal_value_snoc:
  "decimal_value (s @ [c]) = 10 * decimal_value s + (int (ord c) - 48)"
  by (simp add: decimal_value_def)

lemma decimal_value_decimal: "decimal_value (decimal n) = int n"
proof (induction n rule: decimal.induct)
  case (1 n)
  show ?case
  proof (cases "n < 10")
    case True
    then show ?thesis by (subst decimal.simps) (simp add: decimal_value_def ord_chr)
  next
    case False
    then have "decimal_value (decimal n)
        = 10 * decimal_value (decimal (n div 10)) + (int (ord (chr (48 + n mod 10))) - 48)"
      by (subst decimal.simps) (simp add: decimal_value_snoc)
    also have "\<dots> = 10 * int (n div 10) + int (n mod 10)"
      using 1 False by (simp add: ord_chr)
    also have "\<dots> = int n" by presburger
    finally show ?thesis .
  qed
qed

lemma is_digit_chr: "k < 10 \<Longrightarrow> is_digit (chr (48 + k))"
  by (simp add: is_digit_def ord_chr)

lemma decimal_digits: "decimal n \<noteq> [] \<and> list_all is_digit (decimal n)"
proof (induction n rule: decimal.induct)
  case (1 n)
  show ?case
  proof (cases "n < 10")
    case True
    then show ?thesis by (subst (1 2) decimal.simps) (simp add: is_digit_chr)
  next
    case False
    with 1 show ?thesis
      by (subst (1 2) decimal.simps) (simp add: is_digit_chr)
  qed
qed

lemma decimal_value_nonneg: "list_all is_digit s \<Longrightarrow> 0 \<le> decimal_value s"
proof (induction s rule: rev_induct)
  case Nil
  then show ?case by (simp add: decimal_value_def)
next
  case (snoc c s)
  then show ?case by (simp add: decimal_value_snoc is_digit_def)
qed

section \<open>The result of the interpreter\<close>

text \<open>
  The interpreter raises only the \<open>ValueError\<close> of \<open>int\<close>, and exactly when a literal that
  a length rule reads has more than 4300 digits; a query of at most 4300 characters has
  no such literal.
\<close>

lemma parse_raises:
  "literal_over_limit q \<Longrightarrow> parse_natural_language_query q = Inl ValueError"
  by (auto simp: parse_natural_language_query_def literal_over_limit_def py_int_def Let_def
           split: option.splits)

lemma parse_returns:
  "\<not> literal_over_limit q \<Longrightarrow> \<exists>d. parse_natural_language_query q = Inr d"
  by (auto simp: parse_natural_language_query_def literal_over_limit_def py_int_def Let_def
           split: option.splits)

lemma parse_returns_iff:
  "(\<exists>d. parse_natural_language_query q = Inr d) = (\<not> literal_over_limit q)"
  using parse_raises [of q] parse_returns [of q] by auto

lemma parse_raises_iff:
  "(parse_natural_language_query q = Inl ValueError) = literal_over_limit q"
proof (cases "literal_over_limit q")
  case True
  then show ?thesis by (simp add: parse_raises)
next
  case False
  then obtain d where "parse_natural_language_query q = Inr d"
    using parse_returns by blast
  with False show ?thesis by simp
qed

lemma short_query_within_limit: "length q \<le> 4300 \<Longrightarrow> \<not> literal_over_limit q"
proof -
  assume q: "length q \<le> 4300"
  have "length g \<le> 4300" if "re_search length_pattern (lower q) = Some g" for g
    using re_search_run [OF that [unfolded length_pattern_def]] q by (simp add: length_lower)
  moreover
  have "length g \<le> 4300" if "re_search shorter_pattern (lower q) = Some g" for g
    using re_search_run [OF that [unfolded shorter_pattern_def]] q by (simp add: length_lower)
  ultimately show ?thesis
    by (fastforce simp: literal_over_limit_def split: option.splits)
qed

lemma is_palindrome_of:
  "parse_natural_language_query q = Inr d \<Longrightarrow>
   dict_get d ''is_palindrome'' =
     (if str_in ''palindrome'' (lower q) \<or> str_in ''palindromic'' (lower q)
      then Some (PyBool True) else None)"
  by (auto simp: parse_natural_language_query_def py_int_def dict_get_set dict_get_nil Let_def
           simp del: dict_set.simps split: option.splits if_splits)

lemma word_count_of:
  "parse_natural_language_query q = Inr d \<Longrightarrow>
   dict_get d ''word_count'' =
     (if str_in ''single word'' (lower q) then Some (PyInt 1)
      else if str_in ''two word'' (lower q) \<or> str_in ''2 word'' (lower q) then Some (PyInt 2)
      else None)"
  by (auto simp: parse_natural_language_query_def py_int_def dict_get_set dict_get_nil Let_def
           simp del: dict_set.simps split: option.splits if_splits)

lemma min_length_of_search:
  "parse_natural_language_query q = Inr d \<Longrightarrow>
   dict_get d ''min_length'' =
     map_option (\<lambda>g. PyInt (decimal_value g + 1)) (re_search length_pattern (lower q))"
  by (auto simp: parse_natural_language_query_def py_int_def dict_get_set dict_get_nil Let_def
           simp del: dict_set.simps split: option.splits if_splits)

lemma max_length_of_search:
  "parse_natural_language_query q = Inr d \<Longrightarrow>
   dict_get d ''max_length'' =
     map_option (\<lambda>g. PyInt (decimal_value g - 1)) (re_search shorter_pattern (lower q))"
  by (auto simp: parse_natural_language_query_def py_int_def dict_get_set dict_get_nil Let_def
           simp del: dict_set.simps split: option.splits if_splits)

lemma contains_character_of:
  "parse_natural_language_query q = Inr d \<Longrightarrow>
   dict_get d ''contains_character'' =
     (if str_in ''first vowel'' (lower q) then Some (PyStr ''a'')
      else map_option PyStr (re_search contains_pattern (lower q)))"
  by (auto simp: parse_natural_language_query_def py_int_def dict_get_set dict_get_nil Let_def
           simp del: dict_set.simps split: option.splits if_splits)

lemma keys_of_result:
  "case parse_natural_language_query q of
     Inl e \<Rightarrow> True
   | Inr d \<Rightarrow> fst ` set d
       \<subseteq> {''is_palindrome'', ''min_length'', ''max_length'', ''word_count'',
           ''contains_character''}"
  by (simp add: parse_natural_language_query_def py_int_def keys_dict_set Let_def
           del: dict_set.simps split: option.split)

lemma keys_of:
  "parse_natural_language_query q = Inr d \<Longrightarrow>
   fst ` set d
     \<subseteq> {''is_palindrome'', ''min_length'', ''max_length'', ''word_count'',
         ''contains_character''}"
  using keys_of_result [of q] by simp

section \<open>The interpreter on the literal examples\<close>

text \<open>
  C1: the interpreter maps the five example queries of the specification to the stated
  filters: \<open>is_palindrome = true\<close> and \<open>word_count = 1\<close>; \<open>min_length = 11\<close>;
  \<open>max_length = 4\<close>; \<open>contains_character = "z"\<close>; and no filter at all for the query
  without a recognised term, which the handler answers with status 400.
\<close>

theorem interpret_literal_examples:
  "parse_natural_language_query ''all single word palindromic strings''
       = Inr [(''is_palindrome'', PyBool True), (''word_count'', PyInt 1)]
   \<and> parse_natural_language_query ''strings longer than 10 characters''
       = Inr [(''min_length'', PyInt 11)]
   \<and> parse_natural_language_query ''strings shorter than 5 characters''
       = Inr [(''max_length'', PyInt 4)]
   \<and> parse_natural_language_query ''strings containing the letter z''
       = Inr [(''contains_character'', PyStr ''z'')]
   \<and> parse_natural_language_query ''gibberish with no recognized terms'' = Inr []
   \<and> filter_by_natural_language db ''gibberish with no recognized terms''
       = Inl (HTTPException 400)"
proof -
  have none: "parse_natural_language_query ''gibberish with no recognized terms'' = Inr []"
    by code_simp
  have "parse_natural_language_query ''all single word palindromic strings''
       = Inr [(''is_palindrome'', PyBool True), (''word_count'', PyInt 1)]"
    by code_simp
  moreover have "parse_natural_language_query ''strings longer than 10 characters''
       = Inr [(''min_length'', PyInt 11)]"
    by code_simp
  moreover have "parse_natural_language_query ''strings shorter than 5 characters''
       = Inr [(''max_length'', PyInt 4)]"
    by code_simp
  moreover have "parse_natural_language_query ''strings containing the letter z''
       = Inr [(''contains_character'', PyStr ''z'')]"
    by code_simp
  moreover have "filter_by_natural_language db ''gibberish with no recognized terms''
       = Inl (HTTPException 400)"
    by (simp add: filter_by_natural_language_def none)
  ultimately show ?thesis using none by simp
qed

section \<open>The word-count rules\<close>

text \<open>
  C2, as the code has it: the two-word rule is the \<open>elif\<close> branch of the single-word
  rule. Whenever the interpreter returns filters for a query whose lower-cased text
  contains \<open>single word\<close>, \<open>word_count\<close> is 1, also when the text contains \<open>two word\<close>
  or \<open>2 word\<close>; the two-word rule gives \<open>word_count = 2\<close> only when \<open>single word\<close> does
  not occur. The interpreter returns filters unless it raises \<open>ValueError\<close>, which it
  does exactly when a literal read by a length rule has more than 4300 digits, and so
  never for a query of at most 4300 characters.
\<close>

theorem word_count_single_word_first:
  "(parse_natural_language_query q = Inr d \<and> str_in ''single word'' (lower q) \<longrightarrow>
      dict_get d ''word_count'' = Some (PyInt 1))
   \<and> (parse_natural_language_query q = Inr d \<and> \<not> str_in ''single word'' (lower q)
        \<and> (str_in ''two word'' (lower q) \<or> str_in ''2 word'' (lower q)) \<longrightarrow>
      dict_get d ''word_count'' = Some (PyInt 2))
   \<and> ((\<exists>d'. parse_natural_language_query q = Inr d') = (\<not> literal_over_limit q))
   \<and> ((parse_natural_language_query q = Inl ValueError) = literal_over_limit q)
   \<and> (length q \<le> 4300 \<longrightarrow> \<not> literal_over_limit q)"
  using parse_returns_iff [of q] parse_raises_iff [of q] short_query_within_limit [of q]
  by (auto simp: word_count_of)

theorem word_count_single_word_first_witness:
  "parse_natural_language_query ''single word two word'' = Inr [(''word_count'', PyInt 1)]
   \<and> str_in ''single word'' (lower ''single word two word'')
   \<and> dict_get [(''word_count'', PyInt 1)] ''word_count'' = Some (PyInt 1)
   \<and> parse_natural_language_query ''2 Word strings'' = Inr [(''word_count'', PyInt 2)]
   \<and> \<not> str_in ''single word'' (lower ''2 Word strings'')
   \<and> str_in ''2 word'' (lower ''2 Word strings'')
   \<and> dict_get [(''word_count'', PyInt 2)] ''word_count'' = Some (PyInt 2)
   \<and> length ''single word two word'' \<le> 4300
   \<and> \<not> literal_over_limit ''single word two word''"
proof -
  have p1: "parse_natural_language_query ''single word two word''
      = Inr [(''word_count'', PyInt 1)]" by code_simp
  have p2: "parse_natural_language_query ''2 Word strings''
      = Inr [(''word_count'', PyInt 2)]" by code_simp
  have a: "str_in ''single word'' (lower ''single word two word'')" by code_simp
  have b: "\<not> str_in ''single word'' (lower ''2 Word strings'')" by code_simp
  have c: "str_in ''2 word'' (lower ''2 Word strings'')" by code_simp
  have l: "length ''single word two word'' \<le> 4300" by simp
  from p1 p2 a b c l
    word_count_single_word_first [of "''single word two word''" "[(''word_count'', PyInt 1)]"]
    word_count_single_word_first [of "''2 Word strings''" "[(''word_count'', PyInt 2)]"]
  show ?thesis by blast
qed

text \<open>
  The claim as stated fails: the query \<open>single word two word\<close> contains both triggers,
  the interpreter returns filters for it, and their \<open>word_count\<close> is not 2.
\<close>

theorem word_count_later_rule_wins_counterexample:
  "str_in ''single word'' (lower ''single word two word'')
   \<and> str_in ''two word'' (lower ''single word two word'')
   \<and> parse_natural_language_query ''single word two word'' = Inr [(''word_count'', PyInt 1)]
   \<and> dict_get [(''word_count'', PyInt 1)] ''word_count'' \<noteq> Some (PyInt 2)"
  by code_simp

section \<open>The empty filter\<close>

text \<open>
  C5: with no filter present the evaluator returns every row of the table, in storage
  order, unchanged.
\<close>

theorem empty_filter_returns_all:
  "get_all_strings_with_filters db None None None None None = db"
  by (simp add: get_all_strings_with_filters_def)

section \<open>The palindrome computation\<close>

text \<open>
  C7: \<open>is_palindrome\<close> lower-cases its input, removes every character that is not
  alphanumeric and compares the result with its reverse; it holds of
  \<open>A man a plan a canal Panama\<close> and not of \<open>hello\<close>.
\<close>

theorem is_palindrome_normalizes:
  "is_palindrome text = spec_is_palindrome text
   \<and> is_palindrome ''A man a plan a canal Panama''
   \<and> \<not> is_palindrome ''hello''"
proof (intro conjI)
  show "is_palindrome text = spec_is_palindrome text"
    by (simp add: is_palindrome_def spec_is_palindrome_def spec_normalize_def
          re_sub_empty Let_def)
  show "is_palindrome ''A man a plan a canal Panama''" by code_simp
  show "\<not> is_palindrome ''hello''" by code_simp
qed

section \<open>Case-insensitivity of the interpreter\<close>

text \<open>
  C8: the interpreter gives a query and its lower-cased form the same result (the same
  filters, or the same exception), so two queries that differ only in letter case get
  the same filters.
\<close>

theorem interpret_case_insensitive:
  "parse_natural_language_query q = parse_natural_language_query (lower q)
   \<and> (lower q1 = lower q2 \<longrightarrow>
        parse_natural_language_query q1 = parse_natural_language_query q2)"
  by (simp add: parse_natural_language_query_def lower_idem)

theorem interpret_case_insensitive_witness:
  "lower ''Strings LONGER than 3'' = lower ''strings longer THAN 3''
   \<and> parse_natural_language_query ''Strings LONGER than 3''
       = parse_natural_language_query ''strings longer THAN 3''
   \<and> parse_natural_language_query ''Strings LONGER than 3''
       = parse_natural_language_query (lower ''Strings LONGER than 3'')
   \<and> parse_natural_language_query ''Strings LONGER than 3'' = Inr [(''min_length'', PyInt 4)]"
proof -
  have a: "lower ''Strings LONGER than 3'' = lower ''strings longer THAN 3''"
    by code_simp
  have b: "parse_natural_language_query ''Strings LONGER than 3''
      = Inr [(''min_length'', PyInt 4)]"
    by code_simp
  from a b interpret_case_insensitive
    [of "''Strings LONGER than 3''" "''Strings LONGER than 3''" "''strings longer THAN 3''"]
  show ?thesis by blast
qed

section \<open>The filter evaluator\<close>

lemma sql_like_percent: "sql_like ''%'' s"
  by (induction s) simp_all

lemma sql_like_plain_prefix:
  "\<not> list_ex like_special x \<Longrightarrow> sql_like (x @ ''%'') s = startswith s x"
proof (induction x arbitrary: s)
  case Nil
  then show ?case by (simp add: sql_like_percent del: sql_like.simps)
next
  case (Cons c x)
  then show ?case by (cases s) (auto simp: like_special_def)
qed

lemma contains_plain:
  "\<not> list_ex like_special x \<Longrightarrow> contains s x = str_in x s"
proof (induction s)
  case Nil
  then show ?case by (simp add: contains_def sql_like_plain_prefix startswith_nil)
next
  case (Cons c s)
  then show ?case by (simp add: contains_def sql_like_plain_prefix)
qed

text \<open>
  When \<open>contains_character\<close> has none of the characters \<open>%\<close>, \<open>_\<close> and backslash, the
  evaluator admits exactly the records that satisfy every present predicate, with
  \<open>contains_character\<close> a literal, case-sensitive substring of the stored value. The
  interpreter only produces such filters.
\<close>

lemma evaluator_admits_literal:
  "(case cc of None \<Rightarrow> True | Some c \<Rightarrow> \<not> list_ex like_special c) \<Longrightarrow>
   get_all_strings_with_filters db p mn mx wc cc = filter (\<lambda>r. spec_admits r p mn mx wc cc) db"
  by (cases p; cases mn; cases mx; cases wc; cases cc)
     (auto simp: get_all_strings_with_filters_def spec_admits_def contains_plain
           intro: filter_cong)

lemma evaluator_upper_z:
  "get_all_strings_with_filters [r\<lparr>value_col := ''jazz''\<rparr>] None None None None (Some ''Z'') = []
   \<and> get_all_strings_with_filters [r\<lparr>value_col := ''jazz''\<rparr>] None None None None (Some ''z'')
       = [r\<lparr>value_col := ''jazz''\<rparr>]"
  by (simp add: get_all_strings_with_filters_def contains_def)

text \<open>
  C3: the evaluator should admit a record exactly when it satisfies every present
  predicate, \<open>contains_character\<close> being a literal substring of the stored value. Here
  the code is evaluated where it does not: for \<open>contains_character = "_"\<close> (a request
  that \<open>GET /strings\<close> accepts) the table with the one record \<open>abc\<close> gives that record,
  although \<open>abc\<close> has no underscore and the predicates of the specification admit no
  record.
\<close>

theorem contains_character_underscore_admits_all:
  "get_all_strings_with_filters [row_abc] None None None None (Some ''_'') = [row_abc]
   \<and> get_all_strings [row_abc] None None None None (Some ''_'')
       = Inr ([row_abc], 1, [(''contains_character'', PyStr ''_'')])
   \<and> \<not> str_in ''_'' (value_col row_abc)
   \<and> filter (\<lambda>r. spec_admits r None None None None (Some ''_'')) [row_abc] = []"
  by (simp add: get_all_strings_with_filters_def get_all_strings_def contains_def
        spec_admits_def row_abc_def)

text \<open>
  C4: for a filter set with at least two keys present, the set of records the evaluator
  returns is the intersection of the sets it returns for each present key alone.
\<close>

theorem evaluator_is_intersection:
  "2 \<le> keys_present p mn mx wc cc \<Longrightarrow>
   set (get_all_strings_with_filters db p mn mx wc cc)
     = (\<Inter>rs \<in> set (single_filter_results db p mn mx wc cc). set rs)"
  by (cases p; cases mn; cases mx; cases wc; cases cc)
     (auto simp: keys_present_def single_filter_results_def get_all_strings_with_filters_def)

theorem evaluator_is_intersection_witness:
  "2 \<le> keys_present (Some False) (Some 3) None None (Some ''b'')
   \<and> single_filter_results [row_abc] (Some False) (Some 3) None None (Some ''b'')
       = [[row_abc], [row_abc], [row_abc]]
   \<and> set (get_all_strings_with_filters [row_abc] (Some False) (Some 3) None None (Some ''b''))
       = set [row_abc] \<inter> (set [row_abc] \<inter> set [row_abc])"
proof -
  have k: "2 \<le> keys_present (Some False) (Some 3) None None (Some ''b'')"
    by (simp add: keys_present_def)
  have s: "single_filter_results [row_abc] (Some False) (Some 3) None None (Some ''b'')
       = [[row_abc], [row_abc], [row_abc]]"
    by (simp add: single_filter_results_def get_all_strings_with_filters_def contains_def
          row_abc_def)
  from evaluator_is_intersection [OF k, of "[row_abc]"] k s show ?thesis
    by simp
qed

section \<open>The length rules\<close>

lemma evaluator_max_negative:
  "\<forall>r\<in>set db. 0 \<le> length_col r \<Longrightarrow>
   get_all_strings_with_filters db None None (Some (- 1)) None None = []"
  by (auto simp: get_all_strings_with_filters_def filter_empty_conv)

lemma all_less_list_all: "(\<forall>i<n. P i) = list_all P [0 ..< n]"
  by (auto simp: list_all_iff)

lemma lower_ones:
  "lower (''longer than '' @ replicate n CHR ''1'') = ''longer than '' @ replicate n CHR ''1''"
proof -
  have "lower ''longer than '' = ''longer than ''" by code_simp
  moreover have "char_lower CHR ''1'' = CHR ''1''" by code_simp
  ultimately show ?thesis by (simp add: lower_def)
qed

text \<open>
  C6, as the code has it: when the lower-cased query reads \<open>longer than\<close> and an
  integer literal (a run of digits, taken whole, at the leftmost place where the phrase
  is followed by a digit), a literal of more than 4300 digits makes \<open>int\<close> raise
  \<open>ValueError\<close>, and whenever the interpreter returns filters the literal has at most
  4300 digits and \<open>min_length\<close> is its number plus one; for \<open>shorter than\<close>,
  \<open>max_length\<close> is the number minus one. The interpreter returns filters exactly when
  no literal read by a length rule has more than 4300 digits, so for every query of at
  most 4300 characters. The literal of every natural number \<open>n\<close> is read as \<open>n\<close>. In
  particular \<open>longer than 0\<close> gives \<open>min_length = 1\<close> and \<open>shorter than 0\<close> gives
  \<open>max_length = -1\<close>, a filter that is accepted and matches no record of a table whose
  lengths are not negative, as the lengths that \<open>analyze_string\<close> computes are.
\<close>

theorem length_rules_read_literal:
  "(lower q = pre @ ''longer than '' @ ds @ rest
      \<and> ds \<noteq> [] \<and> list_all is_digit ds
      \<and> (case rest of [] \<Rightarrow> True | c # _ \<Rightarrow> \<not> is_digit c)
      \<and> (\<forall>i<length pre. \<not> literal_at ''longer than '' (lower q) i)
    \<longrightarrow> (4300 < length ds \<longrightarrow> parse_natural_language_query q = Inl ValueError)
        \<and> (parse_natural_language_query q = Inr d \<longrightarrow>
             length ds \<le> 4300
             \<and> dict_get d ''min_length'' = Some (PyInt (decimal_value ds + 1))))
   \<and> (lower q = pre @ ''shorter than '' @ ds @ rest
      \<and> ds \<noteq> [] \<and> list_all is_digit ds
      \<and> (case rest of [] \<Rightarrow> True | c # _ \<Rightarrow> \<not> is_digit c)
      \<and> (\<forall>i<length pre. \<not> literal_at ''shorter than '' (lower q) i)
    \<longrightarrow> (4300 < length ds \<longrightarrow> parse_natural_language_query q = Inl ValueError)
        \<and> (parse_natural_language_query q = Inr d \<longrightarrow>
             length ds \<le> 4300
             \<and> dict_get d ''max_length'' = Some (PyInt (decimal_value ds - 1))))
   \<and> ((\<exists>d'. parse_natural_language_query q = Inr d') = (\<not> literal_over_limit q))
   \<and> (length q \<le> 4300 \<longrightarrow> \<not> literal_over_limit q)
   \<and> decimal n \<noteq> [] \<and> list_all is_digit (decimal n) \<and> decimal_value (decimal n) = int n
   \<and> parse_natural_language_query ''longer than 0'' = Inr [(''min_length'', PyInt 1)]
   \<and> parse_natural_language_query ''shorter than 0'' = Inr [(''max_length'', PyInt (- 1))]
   \<and> ((\<forall>r\<in>set db. 0 \<le> length_col r) \<longrightarrow>
        get_all_strings_with_filters db None None (Some (- 1)) None None = []
        \<and> filter_by_natural_language db ''shorter than 0''
            = Inr ([], 0, ''shorter than 0'', [(''max_length'', PyInt (- 1))]))
   \<and> 0 \<le> length_col (analyze_string compute_sha256 v)"
proof -
  have longer: "(4300 < length ds \<longrightarrow> parse_natural_language_query q = Inl ValueError)
      \<and> (parse_natural_language_query q = Inr d \<longrightarrow>
             length ds \<le> 4300
             \<and> dict_get d ''min_length'' = Some (PyInt (decimal_value ds + 1)))"
    if "lower q = pre @ ''longer than '' @ ds @ rest" "ds \<noteq> []" "list_all is_digit ds"
      "case rest of [] \<Rightarrow> True | c # _ \<Rightarrow> \<not> is_digit c"
      "\<forall>i<length pre. \<not> literal_at ''longer than '' (lower q) i"
  proof -
    have "re_search (Lit ''longer than '', Plus is_digit) (lower q) = Some ds"
      using that by (rule re_search_literal)
    then have s: "re_search length_pattern (lower q) = Some ds"
      by (simp add: length_pattern_def)
    have over: "literal_over_limit q" if "4300 < length ds"
      using s that by (simp add: literal_over_limit_def)
    have "length ds \<le> 4300" if "parse_natural_language_query q = Inr d"
    proof (rule ccontr)
      assume "\<not> length ds \<le> 4300"
      then have "parse_natural_language_query q = Inl ValueError"
        using over parse_raises by simp
      with that show False by simp
    qed
    then show ?thesis using s over parse_raises by (simp add: min_length_of_search)
  qed
  have shorter: "(4300 < length ds \<longrightarrow> parse_natural_language_query q = Inl ValueError)
      \<and> (parse_natural_language_query q = Inr d \<longrightarrow>
             length ds \<le> 4300
             \<and> dict_get d ''max_length'' = Some (PyInt (decimal_value ds - 1)))"
    if "lower q = pre @ ''shorter than '' @ ds @ rest" "ds \<noteq> []" "list_all is_digit ds"
      "case rest of [] \<Rightarrow> True | c # _ \<Rightarrow> \<not> is_digit c"
      "\<forall>i<length pre. \<not> literal_at ''shorter than '' (lower q) i"
  proof -
    have "re_search (Lit ''shorter than '', Plus is_digit) (lower q) = Some ds"
      using that by (rule re_search_literal)
    then have s: "re_search shorter_pattern (lower q) = Some ds"
      by (simp add: shorter_pattern_def)
    have over: "literal_over_limit q" if "4300 < length ds"
      using s that by (simp add: literal_over_limit_def)
    have "length ds \<le> 4300" if "parse_natural_language_query q = Inr d"
    proof (rule ccontr)
      assume "\<not> length ds \<le> 4300"
      then have "parse_natural_language_query q = Inl ValueError"
        using over parse_raises by simp
      with that show False by simp
    qed
    then show ?thesis using s over parse_raises by (simp add: max_length_of_search)
  qed
  have l0: "parse_natural_language_query ''longer than 0'' = Inr [(''min_length'', PyInt 1)]"
    by code_simp
  have s0: "parse_natural_language_query ''shorter than 0''
      = Inr [(''max_length'', PyInt (- 1))]"
    by code_simp
  have none: "get_all_strings_with_filters db None None (Some (- 1)) None None = []"
    if "\<forall>r\<in>set db. 0 \<le> length_col r"
    using that by (rule evaluator_max_negative)
  have handler: "filter_by_natural_language db ''shorter than 0''
            = Inr ([], 0, ''shorter than 0'', [(''max_length'', PyInt (- 1))])"
    if "\<forall>r\<in>set db. 0 \<le> length_col r"
    using none [OF that]
    by (simp add: filter_by_natural_language_def s0 call_with_filters_def dict_get_def)
  have len: "0 \<le> length_col (analyze_string compute_sha256 v)"
    by (simp add: analyze_string_def Let_def)
  from longer shorter l0 s0 none handler len decimal_digits [of n]
    decimal_value_decimal [of n] parse_returns_iff [of q] short_query_within_limit [of q]
  show ?thesis by blast
qed

theorem length_rules_read_literal_witness:
  "lower ''Strings LONGER than 10 characters''
       = ''strings '' @ ''longer than '' @ ''10'' @ '' characters''
   \<and> list_all is_digit ''10''
   \<and> decimal_value ''10'' = 10
   \<and> parse_natural_language_query ''Strings LONGER than 10 characters''
       = Inr [(''min_length'', PyInt 11)]
   \<and> length ''10'' \<le> 4300
   \<and> dict_get [(''min_length'', PyInt 11)] ''min_length''
       = Some (PyInt (decimal_value ''10'' + 1))
   \<and> lower ''a Shorter Than 007!'' = ''a '' @ ''shorter than '' @ ''007'' @ ''!''
   \<and> list_all is_digit ''007''
   \<and> decimal_value ''007'' = 7
   \<and> parse_natural_language_query ''a Shorter Than 007!'' = Inr [(''max_length'', PyInt 6)]
   \<and> dict_get [(''max_length'', PyInt 6)] ''max_length''
       = Some (PyInt (decimal_value ''007'' - 1))
   \<and> 0 \<le> length_col row_abc
   \<and> get_all_strings_with_filters [row_abc] None None (Some (- 1)) None None = []"
proof -
  have a1: "lower ''Strings LONGER than 10 characters''
      = ''strings '' @ ''longer than '' @ ''10'' @ '' characters''"
    by code_simp
  have a2: "''10'' \<noteq> []" by simp
  have a3: "list_all is_digit ''10''" by code_simp
  have a4: "case '' characters'' of [] \<Rightarrow> True | c # _ \<Rightarrow> \<not> is_digit c" by code_simp
  have a5: "\<forall>i<length ''strings ''.
      \<not> literal_at ''longer than '' (lower ''Strings LONGER than 10 characters'') i"
    unfolding all_less_list_all by code_simp
  have a6: "decimal_value ''10'' = 10" by code_simp
  have a7: "parse_natural_language_query ''Strings LONGER than 10 characters''
       = Inr [(''min_length'', PyInt 11)]" by code_simp
  have b1: "lower ''a Shorter Than 007!'' = ''a '' @ ''shorter than '' @ ''007'' @ ''!''"
    by code_simp
  have b2: "''007'' \<noteq> []" by simp
  have b3: "list_all is_digit ''007''" by code_simp
  have b4: "case ''!'' of [] \<Rightarrow> True | c # _ \<Rightarrow> \<not> is_digit c" by code_simp
  have b5: "\<forall>i<length ''a ''.
      \<not> literal_at ''shorter than '' (lower ''a Shorter Than 007!'') i"
    unfolding all_less_list_all by code_simp
  have b6: "decimal_value ''007'' = 7" by code_simp
  have b7: "parse_natural_language_query ''a Shorter Than 007!''
      = Inr [(''max_length'', PyInt 6)]" by code_simp
  have e0: "0 \<le> length_col row_abc" by (simp add: row_abc_def)
  then have e: "\<forall>r\<in>set [row_abc]. 0 \<le> length_col r" by simp
  note t1 = length_rules_read_literal
    [of "''Strings LONGER than 10 characters''" "''strings ''" "''10''" "'' characters''"
        "[(''min_length'', PyInt 11)]"]
  note t2 = length_rules_read_literal
    [of "''a Shorter Than 007!''" "''a ''" "''007''" "''!''"
        "[(''max_length'', PyInt 6)]" 0 "[row_abc]"]
  have m: "length ''10'' \<le> 4300
      \<and> dict_get [(''min_length'', PyInt 11)] ''min_length''
          = Some (PyInt (decimal_value ''10'' + 1))"
    using t1 a1 a2 a3 a4 a5 a7 by blast
  have x: "dict_get [(''max_length'', PyInt 6)] ''max_length''
       = Some (PyInt (decimal_value ''007'' - 1))"
    using t2 b1 b2 b3 b4 b5 b7 by blast
  have z: "get_all_strings_with_filters [row_abc] None None (Some (- 1)) None None = []"
    using t2 e by blast
  from a1 a3 a6 a7 b1 b3 b6 b7 m x z e0 show ?thesis by blast
qed

text \<open>
  The claim as stated fails for a literal of 4301 digits: the interpreter raises
  \<open>ValueError\<close> and returns no filters, and the handler answers with status 422.
\<close>

theorem long_literal_raises_counterexample:
  "list_all is_digit (replicate 4301 CHR ''1'')
   \<and> parse_natural_language_query (''longer than '' @ replicate 4301 CHR ''1'')
       = Inl ValueError
   \<and> filter_by_natural_language [] (''longer than '' @ replicate 4301 CHR ''1'')
       = Inl (HTTPException 422)"
proof -
  let ?ds = "replicate 4301 CHR ''1''"
  let ?q = "''longer than '' @ ?ds"
  have one: "is_digit CHR ''1''" by code_simp
  then have digits: "list_all is_digit ?ds" by (simp add: list_all_iff)
  have ne: "?ds \<noteq> []" by simp
  have shape: "lower ?q = [] @ ''longer than '' @ ?ds @ []"
    by (simp only: lower_ones append_Nil append_Nil2)
  have "re_search (Lit ''longer than '', Plus is_digit) (lower ?q) = Some ?ds"
    using shape ne digits by (rule re_search_literal) simp_all
  then have "literal_over_limit ?q"
    by (simp add: literal_over_limit_def length_pattern_def)
  then have raises: "parse_natural_language_query ?q = Inl ValueError"
    by (rule parse_raises)
  then have "filter_by_natural_language [] ?q = Inl (HTTPException 422)"
    by (simp add: filter_by_natural_language_def)
  with digits raises show ?thesis by simp
qed

section \<open>Uniqueness of the stored values\<close>

lemma get_string_by_value_None:
  "(get_string_by_value db v = None) = (\<not> (\<exists>r\<in>set db. value_col r = v))"
  by (auto simp: get_string_by_value_def find_None_iff)

text \<open>
  The three outcomes of \<open>create_string\<close>: a conflict, a refused insert (the primary key
  is taken), and a new last row with the value.
\<close>

lemma create_string_cases:
  "(\<exists>r\<in>set db. value_col r = v) \<and> create_string sha now db v = (Inl (HTTPException 409), db)
   \<or> \<not> (\<exists>r\<in>set db. value_col r = v) \<and> create_string sha now db v = (Inl IntegrityError, db)
   \<or> \<not> (\<exists>r\<in>set db. value_col r = v) \<and>
      (\<exists>row. value_col row = v \<and> create_string sha now db v = (Inr row, db @ [row]))"
proof (cases "get_string_by_value db v")
  case None
  then have n: "\<not> (\<exists>r\<in>set db. value_col r = v)" by (simp add: get_string_by_value_None)
  show ?thesis
  proof (cases "list_ex (\<lambda>r. id_col r = id_col (analyze_string sha v)
                              \<or> value_col r = value_col (analyze_string sha v)) db")
    case True
    with None n show ?thesis
      by (simp add: create_string_def create_string_analysis_def)
  next
    case False
    have "value_col (analysis_data.extend (analyze_string sha v) \<lparr>created_at_col = now\<rparr>) = v"
      by (simp add: analyze_string_def analysis_data.extend_def Let_def)
    with False None n show ?thesis
      by (simp add: create_string_def create_string_analysis_def Let_def)
  qed
next
  case (Some r)
  then have "\<exists>r\<in>set db. value_col r = v"
    using get_string_by_value_None [of db v] by simp
  with Some show ?thesis by (simp add: create_string_def)
qed

text \<open>
  C9: creating a value that a stored record already has is rejected with the conflict
  error (status 409) and leaves the table as it was, in the handler and in the endpoint. The values of the table stay
  pairwise distinct under \<open>create_string\<close> and \<open>delete_string\<close>, and no handler changes
  a stored record: \<open>create_string\<close> leaves the table or adds one row at its end,
  \<open>delete_string\<close> only removes rows.
\<close>

theorem create_existing_value_conflict:
  "((\<exists>r\<in>set db. value_col r = v) \<longrightarrow>
       create_string compute_sha256 now db v = (Inl (HTTPException 409), db))
   \<and> (v \<noteq> [] \<and> (\<exists>r\<in>set db. value_col r = v) \<longrightarrow>
       post_strings compute_sha256 now db v = (Inl (HTTPException 409), db))
   \<and> (distinct (map value_col db) \<longrightarrow>
       distinct (map value_col (snd (create_string compute_sha256 now db v))))
   \<and> (snd (create_string compute_sha256 now db v) = db
       \<or> (\<exists>row. value_col row = v
             \<and> snd (create_string compute_sha256 now db v) = db @ [row]))
   \<and> (distinct (map value_col db) \<longrightarrow>
       distinct (map value_col (snd (delete_string db v))))
   \<and> set (snd (delete_string db v)) \<subseteq> set db"
proof -
  have del: "snd (delete_string db v) = db
     \<or> (\<exists>P. snd (delete_string db v) = filter P db)"
    by (auto simp: delete_string_def delete_string_by_value_def split: option.splits)
  then have d1: "distinct (map value_col db) \<Longrightarrow>
       distinct (map value_col (snd (delete_string db v)))"
    by (auto simp: distinct_map_filter)
  from del have d2: "set (snd (delete_string db v)) \<subseteq> set db" by auto
  have post: "post_strings compute_sha256 now db v = create_string compute_sha256 now db v"
    if "v \<noteq> []"
    using that by (cases v) (simp_all add: post_strings_def StringAnalysisRequest_def)
  from create_string_cases [of db v compute_sha256 now] d1 d2 post show ?thesis
    by (elim disjE conjE exE) (auto simp del: Not_eq_iff)
qed

theorem create_existing_value_conflict_witness:
  "value_col row_abc = ''abc''
   \<and> create_string (\<lambda>s. s) 1 [row_abc] ''abc'' = (Inl (HTTPException 409), [row_abc])
   \<and> post_strings (\<lambda>s. s) 1 [row_abc] ''abc'' = (Inl (HTTPException 409), [row_abc])
   \<and> distinct (map value_col [row_abc])
   \<and> distinct (map value_col (snd (create_string (\<lambda>s. s) 1 [row_abc] ''kayak'')))
   \<and> distinct (map value_col (snd (delete_string [row_abc] ''abc'')))"
proof -
  have a: "\<exists>r\<in>set [row_abc]. value_col r = ''abc''" by (simp add: row_abc_def)
  have b: "distinct (map value_col [row_abc])" by simp
  have v: "value_col row_abc = ''abc''" by (simp add: row_abc_def)
  have n: "''abc'' \<noteq> []" by simp
  from a b v n create_existing_value_conflict [of "[row_abc]" "''abc''" "\<lambda>s. s" 1]
    create_existing_value_conflict [of "[row_abc]" "''kayak''" "\<lambda>s. s" 1]
  show ?thesis by blast
qed

section \<open>The filters the interpreter can produce\<close>

text \<open>
  C10: the filters that the interpreter returns for a query have their keys among
  \<open>is_palindrome\<close>, \<open>min_length\<close>, \<open>max_length\<close>, \<open>word_count\<close> and
  \<open>contains_character\<close>; \<open>is_palindrome\<close>, when present, is true; \<open>word_count\<close>, when
  present, is 1 or 2; \<open>min_length\<close>, when present, is an integer of at least 1;
  \<open>max_length\<close>, when present, is an integer of at least -1; \<open>contains_character\<close>,
  when present, is one lower-case letter \<open>a\<close> to \<open>z\<close>. Filters are returned for every
  query in which no literal read by a length rule has more than 4300 digits.
\<close>

theorem interpreter_filters_invariant:
  "(parse_natural_language_query q = Inr d \<longrightarrow>
      fst ` set d
        \<subseteq> {''is_palindrome'', ''min_length'', ''max_length'', ''word_count'',
            ''contains_character''}
      \<and> dict_get d ''is_palindrome'' \<in> {None, Some (PyBool True)}
      \<and> dict_get d ''word_count'' \<in> {None, Some (PyInt 1), Some (PyInt 2)}
      \<and> (\<forall>x. dict_get d ''min_length'' = Some x \<longrightarrow> (\<exists>n. x = PyInt n \<and> 1 \<le> n))
      \<and> (\<forall>x. dict_get d ''max_length'' = Some x \<longrightarrow> (\<exists>n. x = PyInt n \<and> - 1 \<le> n))
      \<and> (\<forall>x. dict_get d ''contains_character'' = Some x
             \<longrightarrow> (\<exists>c. x = PyStr [c] \<and> is_lower_az c)))
   \<and> ((\<exists>d'. parse_natural_language_query q = Inr d') = (\<not> literal_over_limit q))"
proof (intro conjI allI impI)
  assume p: "parse_natural_language_query q = Inr d"
  show "fst ` set d
     \<subseteq> {''is_palindrome'', ''min_length'', ''max_length'', ''word_count'',
         ''contains_character''}"
    using p by (rule keys_of)
  show "dict_get d ''is_palindrome'' \<in> {None, Some (PyBool True)}"
    using p by (simp add: is_palindrome_of)
  show "dict_get d ''word_count'' \<in> {None, Some (PyInt 1), Some (PyInt 2)}"
    using p by (simp add: word_count_of)
next
  fix x
  assume p: "parse_natural_language_query q = Inr d"
    and "dict_get d ''min_length'' = Some x"
  then obtain g where g: "re_search length_pattern (lower q) = Some g"
      "x = PyInt (decimal_value g + 1)"
    by (auto simp: min_length_of_search)
  from g(1) have "list_all is_digit g"
    unfolding length_pattern_def using re_search_run by blast
  then have "0 \<le> decimal_value g" by (rule decimal_value_nonneg)
  with g(2) show "\<exists>n. x = PyInt n \<and> 1 \<le> n" by simp
next
  fix x
  assume p: "parse_natural_language_query q = Inr d"
    and "dict_get d ''max_length'' = Some x"
  then obtain g where g: "re_search shorter_pattern (lower q) = Some g"
      "x = PyInt (decimal_value g - 1)"
    by (auto simp: max_length_of_search)
  from g(1) have "list_all is_digit g"
    unfolding shorter_pattern_def using re_search_run by blast
  then have "0 \<le> decimal_value g" by (rule decimal_value_nonneg)
  with g(2) show "\<exists>n. x = PyInt n \<and> - 1 \<le> n" by simp
next
  fix x
  assume p: "parse_natural_language_query q = Inr d"
    and a: "dict_get d ''contains_character'' = Some x"
  show "\<exists>c. x = PyStr [c] \<and> is_lower_az c"
  proof (cases "str_in ''first vowel'' (lower q)")
    case True
    have "is_lower_az CHR ''a''" by code_simp
    with a True p show ?thesis by (auto simp: contains_character_of)
  next
    case False
    with a p obtain g where g: "re_search contains_pattern (lower q) = Some g" "x = PyStr g"
      by (auto simp: contains_character_of)
    from g(1) obtain c where "g = [c]" "is_lower_az c"
      unfolding contains_pattern_def using re_search_class by blast
    with g(2) show ?thesis by simp
  qed
next
  show "(\<exists>d'. parse_natural_language_query q = Inr d') = (\<not> literal_over_limit q)"
    by (rule parse_returns_iff)
qed

theorem interpreter_filters_invariant_witness:
  "parse_natural_language_query
       ''Palindromic two word strings longer than 3, shorter than 0, containing the letter Q''
     = Inr [(''is_palindrome'', PyBool True), (''word_count'', PyInt 2),
            (''min_length'', PyInt 4), (''max_length'', PyInt (- 1)),
            (''contains_character'', PyStr ''q'')]
   \<and> is_lower_az CHR ''q''"
proof -
  let ?q =
    "''Palindromic two word strings longer than 3, shorter than 0, containing the letter Q''"
  let ?d = "[(''is_palindrome'', PyBool True), (''word_count'', PyInt 2),
            (''min_length'', PyInt 4), (''max_length'', PyInt (- 1)),
            (''contains_character'', PyStr ''q'')]"
  have p: "parse_natural_language_query ?q = Inr ?d"
    by code_simp
  have "dict_get ?d ''contains_character'' = Some (PyStr ''q'')"
    by (simp add: dict_get_def)
  with p interpreter_filters_invariant [of ?q ?d] have "is_lower_az CHR ''q''" by auto
  with p show ?thesis by simp
qed

end
